theory Spec2Isabelle
  imports Complex_Main "HOL-Library.Multiset" "HOL-Library.Sublist" "HOL-Library.Product_Lexorder"
begin

section \<open>JavaScript values\<close>

text \<open>
  The program is browser JavaScript (\<^verbatim>\<open>main.js\<close>). Its data are JSON values received
  from the webhook and the geocoder. A JavaScript number is NaN, an infinity or a finite
  value; finite values are modelled as reals, so the rounding of IEEE doubles is not
  part of the model. \<^verbatim>\<open>-0\<close> is not distinguished from \<^verbatim>\<open>0\<close>.
\<close>

datatype jsnum = NaN | PosInf | NegInf | Fin real

text \<open>
  An object is the list of its own properties, each key once. JSON has no
  \<^verbatim>\<open>undefined\<close>; it is the value of a missing property.
\<close>

datatype jsval =
    Undefined
  | Null
  | Bool bool
  | Num jsnum
  | Str string
  | Arr "jsval list"
  | Obj "(string \<times> jsval) list"

text \<open>
  Three built-ins of the language are parameters of the model: the prefix parser that
  \<^verbatim>\<open>parseFloat\<close> runs on a string, the decimal printer of numbers and
  \<^verbatim>\<open>encodeURIComponent\<close> (which throws URIError on a lone surrogate: \<open>None\<close>).
  Every theorem below holds for all of them.
\<close>

record builtins =
  parseFloatStr :: "string \<Rightarrow> jsnum"
  numToString :: "jsnum \<Rightarrow> string"
  encodeURIComponent :: "string \<Rightarrow> string option"

fun joinComma :: "string list \<Rightarrow> string" where
  "joinComma [] = []"
| "joinComma [s] = s"
| "joinComma (s # t # ts) = s @ '','' @ joinComma (t # ts)"

text \<open>
  \<^verbatim>\<open>String(v)\<close>, which is also what a template literal \<^verbatim>\<open>${v}\<close> inserts. An array is
  its elements joined by commas, with null and undefined elements empty; a plain object
  is \<^verbatim>\<open>[object Object]\<close>.
\<close>

fun toString :: "builtins \<Rightarrow> jsval \<Rightarrow> string" where
  "toString B Undefined = ''undefined''"
| "toString B Null = ''null''"
| "toString B (Bool b) = (if b then ''true'' else ''false'')"
| "toString B (Num n) = numToString B n"
| "toString B (Str s) = s"
| "toString B (Arr xs) =
     joinComma (map (\<lambda>x. if x = Undefined \<or> x = Null then [] else toString B x) xs)"
| "toString B (Obj kvs) = ''[object Object]''"

text \<open>Truthiness: what \<^verbatim>\<open>!v\<close>, \<^verbatim>\<open>a || b\<close> and \<^verbatim>\<open>c ? x : y\<close> test.\<close>

fun truthy :: "jsval \<Rightarrow> bool" where
  "truthy Undefined = False"
| "truthy Null = False"
| "truthy (Bool b) = b"
| "truthy (Num NaN) = False"
| "truthy (Num (Fin x)) = (x \<noteq> 0)"
| "truthy (Num n) = True"
| "truthy (Str s) = (s \<noteq> [])"
| "truthy (Arr xs) = True"
| "truthy (Obj kvs) = True"

definition js_or :: "jsval \<Rightarrow> jsval \<Rightarrow> jsval" where
  \<comment> \<open>\<^verbatim>\<open>a || b\<close>\<close>
  "js_or a b = (if truthy a then a else b)"

definition js_nullish :: "jsval \<Rightarrow> jsval \<Rightarrow> jsval" where
  \<comment> \<open>\<^verbatim>\<open>a ?? b\<close>\<close>
  "js_nullish a b = (if a = Undefined \<or> a = Null then b else a)"

fun get :: "jsval \<Rightarrow> string \<Rightarrow> jsval" where
  \<comment> \<open>\<^verbatim>\<open>rec.k\<close> for the keys the program reads; none of them is a property of a
      primitive, of an array or of \<^verbatim>\<open>Object.prototype\<close>\<close>
  "get (Obj kvs) k = (case map_of kvs k of None \<Rightarrow> Undefined | Some v \<Rightarrow> v)"
| "get v k = Undefined"

text \<open>
  \<^verbatim>\<open>parseFloat(v)\<close> parses a prefix of \<^verbatim>\<open>String(v)\<close>. A number prints to a text that
  parses back to it; \<^verbatim>\<open>undefined\<close>, \<^verbatim>\<open>null\<close>, \<^verbatim>\<open>true\<close>, \<^verbatim>\<open>false\<close> and
  \<^verbatim>\<open>[object Object]\<close> start no number.
\<close>

fun parseFloat :: "builtins \<Rightarrow> jsval \<Rightarrow> jsnum" where
  "parseFloat B (Num n) = n"
| "parseFloat B (Str s) = parseFloatStr B s"
| "parseFloat B (Arr xs) = parseFloatStr B (toString B (Arr xs))"
| "parseFloat B v = NaN"

definition isNaN :: "jsnum \<Rightarrow> bool" where
  "isNaN n = (n = NaN)"


text \<open>
  Arithmetic and comparison as IEEE 754 defines them on NaN and the infinities, and
  exact on finite values.
\<close>

fun js_mul :: "jsnum \<Rightarrow> jsnum \<Rightarrow> jsnum" where
  "js_mul NaN b = NaN"
| "js_mul a NaN = NaN"
| "js_mul (Fin a) (Fin b) = Fin (a * b)"
| "js_mul (Fin a) PosInf = (if a = 0 then NaN else if 0 < a then PosInf else NegInf)"
| "js_mul (Fin a) NegInf = (if a = 0 then NaN else if 0 < a then NegInf else PosInf)"
| "js_mul PosInf (Fin b) = (if b = 0 then NaN else if 0 < b then PosInf else NegInf)"
| "js_mul NegInf (Fin b) = (if b = 0 then NaN else if 0 < b then NegInf else PosInf)"
| "js_mul PosInf PosInf = PosInf"
| "js_mul PosInf NegInf = NegInf"
| "js_mul NegInf PosInf = NegInf"
| "js_mul NegInf NegInf = PosInf"

fun js_sub :: "jsnum \<Rightarrow> jsnum \<Rightarrow> jsnum" where
  "js_sub NaN b = NaN"
| "js_sub a NaN = NaN"
| "js_sub (Fin a) (Fin b) = Fin (a - b)"
| "js_sub (Fin a) PosInf = NegInf"
| "js_sub (Fin a) NegInf = PosInf"
| "js_sub PosInf (Fin b) = PosInf"
| "js_sub NegInf (Fin b) = NegInf"
| "js_sub PosInf PosInf = NaN"
| "js_sub PosInf NegInf = PosInf"
| "js_sub NegInf PosInf = NegInf"
| "js_sub NegInf NegInf = NaN"

fun js_le :: "jsnum \<Rightarrow> jsnum \<Rightarrow> bool" where
  \<comment> \<open>\<^verbatim>\<open>a <= b\<close>\<close>
  "js_le NaN b = False"
| "js_le a NaN = False"
| "js_le (Fin a) (Fin b) = (a \<le> b)"
| "js_le (Fin a) PosInf = True"
| "js_le (Fin a) NegInf = False"
| "js_le PosInf (Fin b) = False"
| "js_le NegInf (Fin b) = True"
| "js_le PosInf PosInf = True"
| "js_le PosInf NegInf = False"
| "js_le NegInf PosInf = True"
| "js_le NegInf NegInf = True"

fun js_gt0 :: "jsnum \<Rightarrow> bool" where
  \<comment> \<open>\<^verbatim>\<open>v > 0\<close>\<close>
  "js_gt0 (Fin x) = (0 < x)"
| "js_gt0 PosInf = True"
| "js_gt0 NegInf = False"
| "js_gt0 NaN = False"

definition js_trim :: "string \<Rightarrow> string" where
  \<comment> \<open>\<^verbatim>\<open>s.trim()\<close>, for the white space of ASCII\<close>
  "js_trim s =
     (let ws = (\<lambda>c. c \<in> set [CHR 0x09, CHR 0x0A, CHR 0x0B, CHR 0x0C, CHR 0x0D, CHR 0x20])
      in rev (dropWhile ws (rev (dropWhile ws s))))"

section \<open>Configuration\<close>

definition API_BASE_URL :: string where
  "API_BASE_URL = ''https://n8n.srv1108756.hstgr.cloud/webhook/map''"

definition API_REVIEW_URL :: string where
  "API_REVIEW_URL = ''https://n8n.srv1108756.hstgr.cloud/webhook/map/review''"

definition NOMINATIM_API :: string where
  "NOMINATIM_API = ''https://nominatim.openstreetmap.org/search''"

section \<open>The page state\<close>

text \<open>
  A Leaflet layer is an object with an identity: \<^verbatim>\<open>map.removeLayer(x)\<close> removes the
  object \<open>x\<close>, not every layer that looks like it. A layer is therefore a pair of a
  fresh number and its content. A marker is bound to its popup text right after it is
  created, so the content holds the popup.
\<close>

datatype layer =
    Marker jsnum jsnum string
  | Circle jsnum jsnum jsnum
  | CircleMarker jsnum jsnum "string option"

type_synonym layer_obj = "nat \<times> layer"

datatype request = Get string | Post string "jsval option"

datatype notice_kind = ErrorMessage | SuccessMessage

datatype 'a outcome = Rejects | Resolves 'a

text \<open>A raw record is a JSON object: the list of its properties.\<close>

type_synonym rawrec = "(string \<times> jsval) list"


text \<open>
  One entry of \<^verbatim>\<open>processedResults\<close> in \<^verbatim>\<open>updateSidebar\<close>. \<open>distance\<close> is
  \<open>None\<close> for \<^verbatim>\<open>null\<close>.
\<close>

record processed =
  index :: nat
  serial :: jsval
  name :: jsval
  businessName :: jsval
  address :: jsval
  rtype :: jsval
  rstate :: jsval
  contact :: jsval
  email :: jsval
  website :: jsval
  distance :: "jsnum option"
  rating :: jsval
  feedback :: jsval

text \<open>
  The state a result card's closures and elements hold. The submit button's text is one
  of three labels; the rating line shows either \<^verbatim>\<open>Not rated yet\<close> or a value followed by
  a star.
\<close>

datatype submit_label = LabelSubmit | LabelSubmitting | LabelSubmitted

datatype rating_text = NotRatedYet | Rated string

record card =
  result :: processed
  selectedRating :: nat
  starsLit :: nat
  starsClickable :: bool
  textareaValue :: string
  textareaDisabled :: bool
  submitDisabled :: bool
  submitLabel :: submit_label
  submitSubmitting :: bool
  submitBackground :: string
  formVisible :: bool
  writeBtnVisible :: bool
  ratingDisplay :: rating_text
  feedbackDisplay :: string

text \<open>
  The module's globals (\<^verbatim>\<open>markers\<close>, \<^verbatim>\<open>searchCircle\<close>, \<^verbatim>\<open>searchLocationMarker\<close>,
  \<^verbatim>\<open>isLoading\<close>, \<^verbatim>\<open>lastSearchLocation\<close>), the overlay layers of the Leaflet map, the
  elements the functions below write to, and the log of the HTTP requests issued.
  \<open>updateMapBtnDisabled\<close> is \<open>None\<close> when the page has no such button. The viewport
  (\<^verbatim>\<open>fitBounds\<close>, \<^verbatim>\<open>setView\<close>), the layout (\<^verbatim>\<open>adjustMapWidth\<close>), the console and the
  timers that remove a message are not part of the model.
\<close>

record app =
  layers :: "layer_obj list"
  nextId :: nat
  markers :: "layer_obj list"
  searchCircle :: "layer_obj option"
  searchLocationMarker :: "layer_obj option"
  isLoading :: bool
  lastSearchLocation :: "(jsnum \<times> jsnum) option"
  loadingHidden :: bool
  searchBtnDisabled :: bool
  updateMapBtnDisabled :: "bool option"
  message :: "(notice_kind \<times> string) option"
  sidebarHidden :: bool
  sidebarMinimized :: bool
  sidebarTitle :: string
  sidebarEmpty :: bool
  sidebarCards :: "card list"
  requests :: "request list"

section \<open>Map overlays\<close>

definition removeLayer :: "layer_obj \<Rightarrow> app \<Rightarrow> app" where
  "removeLayer x st = st\<lparr>layers := filter (\<lambda>l. fst l \<noteq> fst x) (layers st)\<rparr>"

definition addTo :: "layer \<Rightarrow> app \<Rightarrow> layer_obj \<times> app" where
  \<comment> \<open>a new Leaflet object, added to the map\<close>
  "addTo l st =
     (let x = (nextId st, l)
      in (x, st\<lparr>layers := layers st @ [x], nextId := Suc (nextId st)\<rparr>))"

definition clearMarkers :: "app \<Rightarrow> app" where
  "clearMarkers st = (fold removeLayer (markers st) st)\<lparr>markers := []\<rparr>"

definition nl :: string where
  "nl = [CHR 0x0A]"

definition unwrap :: "rawrec \<Rightarrow> jsval" where
  \<comment> \<open>\<^verbatim>\<open>raw.json || raw\<close>\<close>
  "unwrap raw = js_or (get (Obj raw) ''json'') (Obj raw)"

definition popupContent :: "builtins \<Rightarrow> jsval \<Rightarrow> string" where
  \<open>popupContent B rec = concat [
     nl, ''            <b>'',
       toString B (js_or (js_or (get rec ''name'') (get rec ''Name'')) (Str ''Unnamed'')),
       ''</b><br>'',
     nl, ''            <i>'',
       toString B (js_or (js_or (get rec ''business_name'') (get rec ''Business Name'')) (Str [])),
       ''</i><br>'',
     nl, ''            <span style="font-weight:600;">'',
       toString B (js_or (js_or (get rec ''type'') (get rec ''Type'')) (Str [])),
       ''</span><br>'',
     nl, ''            '',
       toString B (js_or (js_or (get rec ''address'') (get rec ''Address'')) (Str [])),
       ''<br>'',
     nl, ''          '',
     nl, ''            <a'',
     nl, ''              href="mailto:'',
       toString B (js_or (get rec ''email'') (get rec ''Email'')),
       ''?"'',
     nl, ''              class="email-link"'',
     nl, ''            >'',
     nl, ''              '',
       toString B (js_or (get rec ''email'') (get rec ''Email'')),
     nl, ''            </a><br>'',
     nl, ''          '',
     nl, ''            '',
       toString B (js_or (js_or (get rec ''contact'') (get rec ''Contact'')) (Str [])),
       ''<br>'',
     nl, ''            '',
       toString B (js_or (js_or (get rec ''rates'') (get rec ''Rates'')) (Str [])),
     nl, ''          '']\<close>

definition plotOne :: "builtins \<Rightarrow> rawrec \<Rightarrow> app \<Rightarrow> app" where
  \<comment> \<open>the body of the \<^verbatim>\<open>forEach\<close> in \<^verbatim>\<open>plotMarkers\<close>\<close>
  "plotOne B raw st =
     (let rec = unwrap raw;
          lat = parseFloat B (get rec ''latitude'');
          lon = parseFloat B (get rec ''longitude'')
      in if isNaN lat \<or> isNaN lon then st
         else let (marker, st') = addTo (Marker lat lon (popupContent B rec)) st
              in st'\<lparr>markers := markers st' @ [marker]\<rparr>)"

definition plotMarkers :: "builtins \<Rightarrow> rawrec list \<Rightarrow> app \<Rightarrow> app" where
  "plotMarkers B data st = (if data = [] then st else fold (plotOne B) data st)"

definition drawSearchCircle :: "jsnum \<Rightarrow> jsnum \<Rightarrow> jsnum \<Rightarrow> app \<Rightarrow> app" where
  "drawSearchCircle lat lon radiusMiles st =
     (let st1 = (case searchCircle st of None \<Rightarrow> st | Some c \<Rightarrow> removeLayer c st);
          (c', st2) = addTo (Circle lat lon (js_mul radiusMiles (Fin 1609.34))) st1
      in st2\<lparr>searchCircle := Some c'\<rparr>)"


definition highlightSearchLocation :: "builtins \<Rightarrow> jsnum \<Rightarrow> jsnum \<Rightarrow> jsval \<Rightarrow> app \<Rightarrow> app" where
  \<comment> \<open>\<^verbatim>\<open>map\<close> is set before any call, so the \<^verbatim>\<open>!map\<close> return is never taken; the
      parameter's default applies to \<^verbatim>\<open>undefined\<close>\<close>
  "highlightSearchLocation B lat lon label0 st =
     (let label = (if label0 = Undefined then Str [] else label0);
          st1 = (case searchLocationMarker st of None \<Rightarrow> st | Some m \<Rightarrow> removeLayer m st);
          popup = (if truthy label
                   then Some (''<strong>Search location</strong><br>'' @ toString B label)
                   else None);
          (m', st2) = addTo (CircleMarker lat lon popup) st1
      in st2\<lparr>searchLocationMarker := Some m'\<rparr>)"

section \<open>Loading indicator and messages\<close>

definition showLoading :: "bool \<Rightarrow> app \<Rightarrow> app" where
  "showLoading show st =
     (if show
      then st\<lparr>loadingHidden := False, searchBtnDisabled := True,
              updateMapBtnDisabled := map_option (\<lambda>d. True) (updateMapBtnDisabled st),
              isLoading := True\<rparr>
      else st\<lparr>loadingHidden := True, searchBtnDisabled := False,
              updateMapBtnDisabled := map_option (\<lambda>d. False) (updateMapBtnDisabled st),
              isLoading := False\<rparr>)"

definition showError :: "string \<Rightarrow> app \<Rightarrow> app" where
  \<comment> \<open>the message shown before, error or success, is removed\<close>
  "showError msg st = st\<lparr>message := Some (ErrorMessage, msg)\<rparr>"

definition showSuccess :: "string \<Rightarrow> app \<Rightarrow> app" where
  "showSuccess msg st = st\<lparr>message := Some (SuccessMessage, msg)\<rparr>"

section \<open>Loading all locations\<close>

text \<open>
  An \<^verbatim>\<open>async\<close> function runs up to its \<^verbatim>\<open>await\<close>, and resumes when the awaited
  request resolves or rejects; other handlers may run in between. Each function is
  therefore a part that runs on entry and a part for each resumption, the outcome of the
  request being an argument. The function without suffix is the run with nothing in
  between.
\<close>

definition loadAllPins_enter :: "app \<Rightarrow> app" where
  "loadAllPins_enter st =
     (let st1 = showLoading True st
      in st1\<lparr>requests := requests st1 @ [Get (API_BASE_URL @ ''/data'')]\<rparr>)"

definition loadAllPins_resume :: "builtins \<Rightarrow> rawrec list outcome \<Rightarrow> app \<Rightarrow> app" where
  "loadAllPins_resume B response st =
     showLoading False
       (case response of
          Resolves data \<Rightarrow> plotMarkers B data st
        | Rejects \<Rightarrow>
            showError ''Failed to load locations. Please check your connection and try again.'' st)"

definition loadAllPins :: "builtins \<Rightarrow> rawrec list outcome \<Rightarrow> app \<Rightarrow> app" where
  "loadAllPins B response st = loadAllPins_resume B response (loadAllPins_enter st)"

section \<open>The sidebar\<close>

definition atan2 :: "real \<Rightarrow> real \<Rightarrow> real" where
  \<comment> \<open>\<^verbatim>\<open>Math.atan2(y, x)\<close>\<close>
  "atan2 y x =
     (if 0 < x then arctan (y / x)
      else if x < 0 then (if 0 \<le> y then arctan (y / x) + pi else arctan (y / x) - pi)
      else if 0 < y then pi / 2
      else if y < 0 then - pi / 2
      else 0)"

definition haversine :: "real \<Rightarrow> real \<Rightarrow> real \<Rightarrow> real \<Rightarrow> real" where
  \<comment> \<open>the body of \<^verbatim>\<open>calculateDistance\<close> on finite arguments\<close>
  "haversine lat1 lng1 lat2 lng2 =
     (let R = 3959;
          dLat = (lat2 - lat1) * pi / 180;
          dLng = (lng2 - lng1) * pi / 180;
          a = sin (dLat / 2) * sin (dLat / 2) +
              cos (lat1 * pi / 180) * cos (lat2 * pi / 180) *
              sin (dLng / 2) * sin (dLng / 2);
          c = 2 * atan2 (sqrt a) (sqrt (1 - a))
      in R * c)"

definition calculateDistance :: "jsnum \<Rightarrow> jsnum \<Rightarrow> jsnum \<Rightarrow> jsnum \<Rightarrow> jsnum" where
  \<comment> \<open>an argument that is NaN or infinite makes a sine or cosine NaN, and the result\<close>
  "calculateDistance lat1 lng1 lat2 lng2 =
     (case (lat1, lng1, lat2, lng2) of
        (Fin a, Fin b, Fin c, Fin d) \<Rightarrow> Fin (haversine a b c d)
      | _ \<Rightarrow> NaN)"

definition toFixed1 :: "jsnum \<Rightarrow> jsnum" where
  \<comment> \<open>\<^verbatim>\<open>Number(x.toFixed(1))\<close>: one decimal, a tie rounded away from zero; from
      \<^verbatim>\<open>1e21\<close> on, and on NaN and the infinities, \<^verbatim>\<open>toFixed\<close> prints the number itself\<close>
  "toFixed1 n =
     (case n of
        Fin x \<Rightarrow>
          if 10 ^ 21 \<le> \<bar>x\<bar> then Fin x
          else if x < 0 then Fin (- (of_int \<lfloor>- x * 10 + 1 / 2\<rfloor> / 10))
          else Fin (of_int \<lfloor>x * 10 + 1 / 2\<rfloor> / 10)
      | _ \<Rightarrow> n)"

definition processOne ::
  "builtins \<Rightarrow> (jsnum \<times> jsnum) option \<Rightarrow> nat \<Rightarrow> rawrec \<Rightarrow> processed" where
  \<comment> \<open>the function mapped over \<^verbatim>\<open>results\<close>; \<open>i\<close> is the position, from 0\<close>
  "processOne B lastLoc i raw =
     (let rec = unwrap raw;
          locLat = parseFloat B (js_nullish (js_nullish (js_nullish
                     (get rec ''latitude'') (get rec ''lat''))
                     (get rec ''Latitude'')) (get rec ''Lat''));
          locLon = parseFloat B (js_nullish (js_nullish (js_nullish
                     (get rec ''longitude'') (get rec ''lon''))
                     (get rec ''Longitude'')) (get rec ''Lon''));
          distanceMiles =
            (case lastLoc of
               None \<Rightarrow> None
             | Some (sLat, sLon) \<Rightarrow>
                 if \<not> isNaN locLat \<and> \<not> isNaN locLon
                 then Some (toFixed1 (calculateDistance sLat sLon locLat locLon))
                 else None)
      in \<lparr>index = i + 1,
          serial = js_or (js_or (js_or (js_or (js_or
                     (get rec ''serial'') (get rec ''Serial''))
                     (get rec ''Serial No.'')) (get rec ''Serial No''))
                     (get rec ''serial_no'')) (Num (Fin (real (i + 1)))),
          name = js_or (js_or (get rec ''name'') (get rec ''Name'')) (Str ''Unnamed''),
          businessName =
            js_or (js_or (get rec ''business_name'') (get rec ''Business Name'')) (Str []),
          address = js_or (js_or (get rec ''address'') (get rec ''Address'')) (Str []),
          rtype = js_or (js_or (get rec ''type'') (get rec ''Type'')) (Str []),
          rstate = js_or (js_or (get rec ''state'') (get rec ''State'')) (Str []),
          contact = js_or (js_or (get rec ''contact'') (get rec ''Contact'')) (Str []),
          email = js_or (js_or (get rec ''email'') (get rec ''Email'')) (Str []),
          website = js_or (js_or (get rec ''website'') (get rec ''Website'')) (Str []),
          distance = distanceMiles,
          rating = js_or (js_or (get rec ''rating'') (get rec ''Rating'')) Null,
          feedback = js_or (js_or (get rec ''feedback'') (get rec ''Feedback'')) Null\<rparr>)"

definition distOrInfinity :: "processed \<Rightarrow> jsnum" where
  \<comment> \<open>\<^verbatim>\<open>a.distance !== null ? a.distance : Infinity\<close>\<close>
  "distOrInfinity r = (case distance r of None \<Rightarrow> PosInf | Some d \<Rightarrow> d)"

definition compareDistance :: "processed \<Rightarrow> processed \<Rightarrow> jsnum" where
  \<comment> \<open>the comparator handed to \<^verbatim>\<open>sort\<close>\<close>
  "compareDistance a b = js_sub (distOrInfinity a) (distOrInfinity b)"

text \<open>
  \<^verbatim>\<open>Array.prototype.sort\<close> is stable, and reads a comparator result that is NaN as 0.
  It is modelled as the stable insertion sort: an element moves behind another only when
  the comparator says it is greater. Where the comparator is consistent on the elements
  (as the language defines it), the language fixes the result, and this is it.
\<close>

fun sortInsert :: "('a \<Rightarrow> 'a \<Rightarrow> jsnum) \<Rightarrow> 'a \<Rightarrow> 'a list \<Rightarrow> 'a list" where
  "sortInsert cmp x [] = [x]"
| "sortInsert cmp x (y # ys) =
     (if js_gt0 (cmp x y) then y # sortInsert cmp x ys else x # y # ys)"

definition array_sort :: "('a \<Rightarrow> 'a \<Rightarrow> jsnum) \<Rightarrow> 'a list \<Rightarrow> 'a list" where
  "array_sort cmp xs = foldr (sortInsert cmp) xs []"

definition renumber :: "processed list \<Rightarrow> processed list" where
  \<comment> \<open>\<^verbatim>\<open>result.index = index + 1\<close> for each element\<close>
  "renumber rs = map (\<lambda>(i, r). r\<lparr>index := i + 1\<rparr>) (enumerate 0 rs)"

definition sortByDistance :: "processed list \<Rightarrow> processed list" where
  \<comment> \<open>the step \<^verbatim>\<open>Sort by distance if available\<close>\<close>
  "sortByDistance rs =
     (if rs \<noteq> [] \<and> (\<exists>r \<in> set rs. distance r \<noteq> None)
      then renumber (array_sort compareDistance rs)
      else rs)"

definition processResults ::
  "builtins \<Rightarrow> (jsnum \<times> jsnum) option \<Rightarrow> rawrec list \<Rightarrow> processed list" where
  "processResults B lastLoc results =
     sortByDistance (map (\<lambda>(i, raw). processOne B lastLoc i raw) (enumerate 0 results))"

definition newCard :: "builtins \<Rightarrow> processed \<Rightarrow> card" where
  \<comment> \<open>a result card as \<^verbatim>\<open>updateSidebar\<close> creates it\<close>
  "newCard B r =
     \<lparr>result = r, selectedRating = 0, starsLit = 0, starsClickable = True,
      textareaValue = [], textareaDisabled = False, submitDisabled = False,
      submitLabel = LabelSubmit, submitSubmitting = False, submitBackground = [],
      formVisible = False, writeBtnVisible = True,
      ratingDisplay = (if truthy (rating r) then Rated (toString B (rating r)) else NotRatedYet),
      feedbackDisplay = toString B (js_or (feedback r) (Str ''No feedback yet''))\<rparr>"

definition updateSidebar :: "builtins \<Rightarrow> rawrec list \<Rightarrow> jsnum \<Rightarrow> app \<Rightarrow> app" where
  \<open>updateSidebar B results radius st =
     (let st1 = st\<lparr>sidebarHidden := False, sidebarMinimized := False\<rparr>;
          title =
            (if results \<noteq> []
             then ''Results within '' @ numToString B radius @
                  '' miles<br><span style="font-size: 14px; font-weight: 400; opacity: 0.9;">Total results: '' @
                  numToString B (Fin (real (length results))) @ ''</span>''
             else ''Search Results<br><span style="font-size: 14px; font-weight: 400; opacity: 0.9;">Total results: 0</span>'')
      in if results = []
         then st1\<lparr>sidebarTitle := title, sidebarEmpty := True, sidebarCards := []\<rparr>
         else st1\<lparr>sidebarTitle := title, sidebarEmpty := False,
                  sidebarCards :=
                    map (newCard B) (processResults B (lastSearchLocation st) results)\<rparr>)\<close>

section \<open>Feedback on a result card\<close>

text \<open>
  The handlers of a card, as functions from the card's state to the new state and what
  the handler does to the outside: a dialog shown by \<^verbatim>\<open>alert\<close>, or a request sent.
  The submit handler is \<^verbatim>\<open>async\<close>: \<open>submit_click\<close> is its run up to the request,
  \<open>submit_resolved\<close> and \<open>submit_finish\<close> its run after a response (before and after
  the half second it waits), \<open>submit_rejected\<close> its run after a failure.
\<close>

datatype effect = Alert string | Send request

definition star_click :: "nat \<Rightarrow> card \<Rightarrow> card" where
  \<comment> \<open>the click handler of star \<open>i\<close>, with \<^verbatim>\<open>updateStars(starsDiv, i)\<close>\<close>
  "star_click i c = c\<lparr>selectedRating := i, starsLit := i\<rparr>"

definition writeFeedback_click :: "card \<Rightarrow> card" where
  "writeFeedback_click c =
     (let isVisible = formVisible c;
          c1 = c\<lparr>formVisible := \<not> isVisible, writeBtnVisible := isVisible\<rparr>
      in if \<not> isVisible
         then c1\<lparr>selectedRating := 0, starsLit := 0, textareaValue := []\<rparr>
         else c1)"

definition submit_click :: "builtins \<Rightarrow> card \<Rightarrow> card \<times> effect list" where
  "submit_click B c =
     (if selectedRating c = 0
      then (c, [Alert ''Please select a star rating before submitting.''])
      else
        let feedbackText = js_trim (textareaValue c);
            c1 = c\<lparr>submitDisabled := True, submitLabel := LabelSubmitting,
                   submitSubmitting := True, textareaDisabled := True,
                   starsClickable := False\<rparr>;
            requestBody = Obj [(''serial'', Str (toString B (serial (result c)))),
                               (''review'', Num (Fin (real (selectedRating c)))),
                               (''feedback'', Str feedbackText)]
        in (c1, [Send (Post API_REVIEW_URL (Some requestBody))]))"

definition submit_resolved :: "card \<Rightarrow> card" where
  "submit_resolved c = c\<lparr>submitLabel := LabelSubmitted, submitBackground := ''#2ed573''\<rparr>"

definition submit_finish :: "builtins \<Rightarrow> string \<Rightarrow> card \<Rightarrow> card \<times> effect list" where
  \<comment> \<open>\<open>feedbackText\<close> is the text the handler read when the button was clicked\<close>
  "submit_finish B feedbackText c =
     (c\<lparr>formVisible := False, writeBtnVisible := True,
        ratingDisplay := Rated (numToString B (Fin (real (selectedRating c)))),
        feedbackDisplay := (if feedbackText = [] then ''No feedback yet'' else feedbackText),
        selectedRating := 0, starsLit := 0, textareaValue := [],
        submitDisabled := False, submitLabel := LabelSubmit, submitSubmitting := False,
        submitBackground := [], textareaDisabled := False, starsClickable := True\<rparr>,
      [Alert ''Feedback submitted!''])"

definition submit_rejected :: "card \<Rightarrow> card \<times> effect list" where
  "submit_rejected c =
     (c\<lparr>submitDisabled := False, submitLabel := LabelSubmit, submitSubmitting := False,
        submitBackground := [], textareaDisabled := False, starsClickable := True\<rparr>,
      [Alert ''Failed to submit feedback. Please try again.''])"

section \<open>Geocoding\<close>

record geo =
  lat :: jsnum
  lon :: jsnum
  display_name :: jsval

datatype js_error = URIError | NetworkError | TypeError

definition geocodeAddress_url :: "builtins \<Rightarrow> string \<Rightarrow> string option" where
  "geocodeAddress_url B addr =
     map_option (\<lambda>encodedAddress. NOMINATIM_API @ ''?format=json&q='' @ encodedAddress @ ''&limit=1'')
       (encodeURIComponent B addr)"

text \<open>
  The geocoder answers with a JSON array. \<open>geocodeAddress_try\<close> is the body of the
  \<^verbatim>\<open>try\<close> block, which can throw: in \<^verbatim>\<open>encodeURIComponent\<close>, in the request, and in
  \<^verbatim>\<open>result.lat\<close> when the first element is \<^verbatim>\<open>null\<close>. \<open>geocodeAddress\<close> adds the
  \<^verbatim>\<open>catch\<close>. Its value is what the promise settles to: \<open>Inl\<close> would be a rejection.
\<close>

definition geocodeAddress_try ::
  "builtins \<Rightarrow> string \<Rightarrow> jsval list outcome \<Rightarrow> js_error + geo option" where
  "geocodeAddress_try B addr response =
     (case encodeURIComponent B addr of
        None \<Rightarrow> Inl URIError
      | Some encodedAddress \<Rightarrow>
          (case response of
             Rejects \<Rightarrow> Inl NetworkError
           | Resolves [] \<Rightarrow> Inr None
           | Resolves (r # rest) \<Rightarrow>
               if r = Undefined \<or> r = Null then Inl TypeError
               else Inr (Some \<lparr>lat = parseFloat B (get r ''lat''),
                               lon = parseFloat B (get r ''lon''),
                               display_name = get r ''display_name''\<rparr>)))"

definition geocodeAddress ::
  "builtins \<Rightarrow> string \<Rightarrow> jsval list outcome \<Rightarrow> js_error + geo option" where
  "geocodeAddress B addr response =
     (case geocodeAddress_try B addr response of
        Inl error \<Rightarrow> Inr None
      | Inr r \<Rightarrow> Inr r)"

section \<open>Searching\<close>

definition handleSearch_enter ::
  "builtins \<Rightarrow> string \<Rightarrow> string \<Rightarrow> app \<Rightarrow> app \<times> (string \<times> jsnum) option" where
  \<comment> \<open>up to \<^verbatim>\<open>await geocodeAddress(address)\<close>; \<open>Some\<close> when the geocoder is awaited\<close>
  "handleSearch_enter B addressValue radiusValue st =
     (let addr = js_trim addressValue;
          radius = parseFloatStr B radiusValue
      in if addr = [] then (showError ''Please enter an address'' st, None)
         else if \<not> truthy (Num radius) \<or> js_le radius (Fin 0)
           then (showError ''Please enter a valid radius (greater than 0)'' st, None)
         else if isLoading st then (st, None)
         else
           let st1 = showLoading True st;
               st2 = st1\<lparr>requests := requests st1 @
                       (case geocodeAddress_url B addr of None \<Rightarrow> [] | Some url \<Rightarrow> [Get url])\<rparr>
           in (st2, Some (addr, radius)))"

definition handleSearch_geocoded ::
  "jsnum \<Rightarrow> js_error + geo option \<Rightarrow> app \<Rightarrow> app \<times> geo option" where
  \<comment> \<open>from the geocoder's answer up to the \<^verbatim>\<open>await\<close> of the query; \<open>Some\<close> when the
      query is awaited\<close>
  "handleSearch_geocoded radius settled st =
     (let radiusKm = js_mul radius (Fin 1.60934)
      in case settled of
           Inl error \<Rightarrow>
             (showLoading False (showError ''Search failed. Please try again.'' st), None)
         | Inr None \<Rightarrow>
             (showLoading False
                (showError ''Could not find the specified address. Please try a different address.'' st),
              None)
         | Inr (Some geocodeResult) \<Rightarrow>
             let st1 = st\<lparr>lastSearchLocation := Some (lat geocodeResult, lon geocodeResult)\<rparr>;
                 body = Obj [(''latitude'', Num (lat geocodeResult)),
                             (''longitude'', Num (lon geocodeResult)),
                             (''radius'', Num radiusKm)]
             in (st1\<lparr>requests := requests st1 @ [Post (API_BASE_URL @ ''/query'') (Some body)]\<rparr>,
                 Some geocodeResult))"

definition handleSearch_queried ::
  "builtins \<Rightarrow> string \<Rightarrow> jsnum \<Rightarrow> geo \<Rightarrow> rawrec list outcome \<Rightarrow> app \<Rightarrow> app" where
  \<comment> \<open>from the answer to the query to the end\<close>
  "handleSearch_queried B addr radius geocodeResult response st =
     showLoading False
       (case response of
          Rejects \<Rightarrow> showError ''Search failed. Please try again.'' st
        | Resolves data \<Rightarrow>
            let st1 = clearMarkers st;
                st2 = plotMarkers B data st1;
                st3 = updateSidebar B data radius st2;
                st4 = drawSearchCircle (lat geocodeResult) (lon geocodeResult) radius st3;
                st5 = highlightSearchLocation B (lat geocodeResult) (lon geocodeResult)
                        (js_or (display_name geocodeResult) (Str addr)) st4
            in if data = [] then showError ''No locations found within that radius.'' st5
               else st5)"

definition handleSearch ::
  "builtins \<Rightarrow> string \<Rightarrow> string \<Rightarrow> jsval list outcome \<Rightarrow> rawrec list outcome \<Rightarrow> app \<Rightarrow> app"
  where
  "handleSearch B addressValue radiusValue geoResponse queryResponse st =
     (case handleSearch_enter B addressValue radiusValue st of
        (st1, None) \<Rightarrow> st1
      | (st1, Some (addr, radius)) \<Rightarrow>
          (case handleSearch_geocoded radius (geocodeAddress B addr geoResponse) st1 of
             (st2, None) \<Rightarrow> st2
           | (st2, Some geocodeResult) \<Rightarrow>
               handleSearch_queried B addr radius geocodeResult queryResponse st2))"


section \<open>Evaluation on concrete inputs\<close>

text \<open>
  The globals as the module initialises them, on a page that shows nothing yet, and an
  instance of the built-ins. The instance reads a decimal numeral (a minus sign, digits,
  a fraction) at the start of a string as its number, which is what \<^verbatim>\<open>parseFloat\<close>
  does on such a string; it does not read white space, a plus sign, an exponent or
  \<^verbatim>\<open>Infinity\<close>, and it prints every number alike. No evaluation below gives it such
  a string or looks at a printed number.
\<close>

definition initialState :: app where
  "initialState =
     \<lparr>layers = [], nextId = 0, markers = [], searchCircle = None,
      searchLocationMarker = None, isLoading = False, lastSearchLocation = None,
      loadingHidden = True, searchBtnDisabled = False, updateMapBtnDisabled = Some False,
      message = None, sidebarHidden = False, sidebarMinimized = False, sidebarTitle = [],
      sidebarEmpty = False, sidebarCards = [], requests = []\<rparr>"

definition digitsValue :: "string \<Rightarrow> nat" where
  "digitsValue s = foldl (\<lambda>a c. 10 * a + (of_char c - 48)) 0 s"

definition parseDecimal :: "string \<Rightarrow> jsnum" where
  "parseDecimal s =
     (let digit = (\<lambda>c. c \<in> set ''0123456789'');
          negative = (case s of [] \<Rightarrow> False | c # t \<Rightarrow> c = CHR ''-'');
          u = (if negative then tl s else s);
          ip = takeWhile digit u;
          fp = (case dropWhile digit u of
                  [] \<Rightarrow> []
                | c # t \<Rightarrow> if c = CHR ''.'' then takeWhile digit t else []);
          v = real (digitsValue ip) + real (digitsValue fp) / 10 ^ length fp
      in if ip = [] \<and> fp = [] then NaN else Fin (if negative then - v else v))"

definition sampleBuiltins :: builtins where
  "sampleBuiltins =
     \<lparr>parseFloatStr = parseDecimal, numToString = (\<lambda>n. ''0''), encodeURIComponent = Some\<rparr>"

definition officeA :: rawrec where
  "officeA =
     [(''Name'', Str ''Office Name''), (''latitude'', Num (Fin 33.5207)),
      (''longitude'', Num (Fin (- 86.8025)))]"

definition officeB :: rawrec where
  "officeB = [(''json'', Obj [(''name'', Str ''B''), (''email'', Str ''b@office.com''),
      (''latitude'', Num (Fin 34)), (''longitude'', Num (Fin (- 87)))])]"

definition noCoordinates :: rawrec where
  "noCoordinates = [(''Name'', Str ''No coordinates''), (''Email'', Str ''n@office.com'')]"

definition birmingham :: "jsval list" where
  \<comment> \<open>an answer of the geocoder, which sends coordinates as strings\<close>
  "birmingham =
     [Obj [(''lat'', Str ''33.5207''), (''lon'', Str ''-86.8025''),
           (''display_name'', Str ''Birmingham, Alabama'')]]"




section \<open>Vocabulary of the properties\<close>



fun markerLat :: "layer \<Rightarrow> jsnum" where
  "markerLat (Marker a b p) = a"
| "markerLat (Circle a b r) = a"
| "markerLat (CircleMarker a b p) = a"


fun markerPopup :: "layer \<Rightarrow> string" where
  "markerPopup (Marker a b p) = p"
| "markerPopup (Circle a b r) = []"
| "markerPopup (CircleMarker a b p) = (case p of None \<Rightarrow> [] | Some t \<Rightarrow> t)"


definition finiteOrNull :: "processed \<Rightarrow> bool" where
  \<comment> \<open>the distance is \<^verbatim>\<open>null\<close> or a finite number\<close>
  "finiteOrNull r =
     (case distance r of None \<Rightarrow> True | Some (Fin x) \<Rightarrow> True | Some _ \<Rightarrow> False)"

definition distKey :: "processed \<Rightarrow> bool \<times> real" where
  \<comment> \<open>a distance in the lexicographic order of pairs: a number by its value,
      \<^verbatim>\<open>null\<close> after every number\<close>
  "distKey r = (case distance r of Some (Fin x) \<Rightarrow> (False, x) | _ \<Rightarrow> (True, 0))"



fun isMarker :: "layer \<Rightarrow> bool" where
  "isMarker (Marker a b p) = True"
| "isMarker (Circle a b r) = False"
| "isMarker (CircleMarker a b p) = False"

fun isCircle :: "layer \<Rightarrow> bool" where
  "isCircle (Marker a b p) = False"
| "isCircle (Circle a b r) = True"
| "isCircle (CircleMarker a b p) = False"

fun isCircleMarker :: "layer \<Rightarrow> bool" where
  "isCircleMarker (Marker a b p) = False"
| "isCircleMarker (Circle a b r) = False"
| "isCircleMarker (CircleMarker a b p) = True"

text \<open>The layers on the map, by kind.\<close>

definition markerLayers :: "app \<Rightarrow> layer_obj list" where
  "markerLayers st = filter (\<lambda>x. isMarker (snd x)) (layers st)"

definition circleLayers :: "app \<Rightarrow> layer_obj list" where
  "circleLayers st = filter (\<lambda>x. isCircle (snd x)) (layers st)"

definition searchMarkerLayers :: "app \<Rightarrow> layer_obj list" where
  "searchMarkerLayers st = filter (\<lambda>x. isCircleMarker (snd x)) (layers st)"

fun optlist :: "'a option \<Rightarrow> 'a list" where
  "optlist None = []"
| "optlist (Some x) = [x]"

text \<open>
  The map and the globals agree: every layer has its own identity, below the next one to
  be given out; the markers on the map are the \<^verbatim>\<open>markers\<close> array; the circles on the map
  are \<^verbatim>\<open>searchCircle\<close>, if set; the highlight markers on the map are
  \<^verbatim>\<open>searchLocationMarker\<close>, if set.
\<close>

definition consistent :: "app \<Rightarrow> bool" where
  "consistent st =
     (distinct (map fst (layers st)) \<and>
      list_all (\<lambda>x. fst x < nextId st) (layers st) \<and>
      markerLayers st = markers st \<and>
      circleLayers st = optlist (searchCircle st) \<and>
      searchMarkerLayers st = optlist (searchLocationMarker st))"


section \<open>Properties\<close>

lemmas eval_plot =
  plotMarkers_def plotOne_def unwrap_def js_or_def initialState_def addTo_def isNaN_def
  Let_def officeA_def officeB_def noCoordinates_def

subsection \<open>Plotting markers\<close>








text \<open>
  C7 at a record that has no email: the popup of its marker holds the word
  \<^verbatim>\<open>undefined\<close> (in the \<^verbatim>\<open>mailto:\<close> link and as the link's text). The other fields fall
  back to a text; the email has no fallback.
\<close>

theorem popup_of_record_without_email:
  "map (sublist ''undefined'' \<circ> markerPopup \<circ> snd)
     (markers (plotMarkers B [officeA] initialState)) = [True]"
  apply (simp add: eval_plot popupContent_def nl_def)
  apply code_simp
  done

text \<open>
  C6 at a reload: \<^verbatim>\<open>loadAllPins\<close> does not call \<^verbatim>\<open>clearMarkers\<close>. After a load that
  returned one record and a reload that returned another, the marker of the first is
  still in the marker list and on the map.
\<close>

theorem loadAllPins_keeps_earlier_markers:
  "map (markerLat \<circ> snd)
     (markers (loadAllPins B (Resolves [officeB]) (loadAllPins B (Resolves [officeA]) initialState)))
     = [Fin 33.5207, Fin 34] \<and>
   map (markerLat \<circ> snd)
     (layers (loadAllPins B (Resolves [officeB]) (loadAllPins B (Resolves [officeA]) initialState)))
     = [Fin 33.5207, Fin 34]"
  by (simp add: loadAllPins_def loadAllPins_enter_def loadAllPins_resume_def showLoading_def
      eval_plot)

subsection \<open>Processing the results for the sidebar\<close>


lemma processOne_None: "distance (processOne B None i raw) = None"
  by (simp add: processOne_def Let_def)

lemma index_processOne: "index (processOne B l i raw) = i + 1"
  by (simp add: processOne_def Let_def)

lemma map_index_enumerate:
  "map index (map (\<lambda>(i, raw). processOne B l i raw) (enumerate n results)) = [Suc n..<Suc (n + length results)]"
proof (induction results arbitrary: n)
  case Nil
  then show ?case by simp
next
  case (Cons a results)
  then show ?case by (simp add: index_processOne upt_rec)
qed

text \<open>
  C4. With no reference point (\<^verbatim>\<open>lastSearchLocation\<close> is \<^verbatim>\<open>null\<close>) every distance is
  \<^verbatim>\<open>null\<close>, the sort is skipped, and the processed list is the input in its order: the
  element at position \<open>i\<close> is built from the record at position \<open>i\<close>, and the ranks
  are 1, 2, ..., n.
\<close>

theorem processResults_without_reference:
  "processResults B None results = map (\<lambda>(i, raw). processOne B None i raw) (enumerate 0 results) \<and>
   map index (processResults B None results) = [1..<Suc (length results)] \<and>
   list_all (\<lambda>r. distance r = None) (processResults B None results)"
proof -
  have d: "\<forall>r \<in> set (map (\<lambda>(i, raw). processOne B None i raw) (enumerate 0 results)). distance r = None"
    by (auto simp: processOne_None)
  then have e: "processResults B None results = map (\<lambda>(i, raw). processOne B None i raw) (enumerate 0 results)"
    unfolding processResults_def sortByDistance_def by auto
  show ?thesis using d map_index_enumerate [of B None 0 results] unfolding e
    by (simp add: list_all_iff)
qed







lemma distKey_cong: "distance a = distance b \<Longrightarrow> distKey a = distKey b"
  by (simp add: distKey_def)

lemma finiteOrNull_cong: "distance a = distance b \<Longrightarrow> finiteOrNull a = finiteOrNull b"
  by (simp add: finiteOrNull_def)

lemma distOrInfinity_cong: "distance a = distance b \<Longrightarrow> distOrInfinity a = distOrInfinity b"
  by (simp add: distOrInfinity_def)









subsection \<open>Feedback on a result card\<close>

text \<open>
  C8. A click on the submit button of a card whose selected rating is 0 shows the dialog
  that asks for a rating and returns: the card's state (draft text, selected rating,
  which controls are enabled, the rating and feedback shown) is what it was, and no
  request is sent.
\<close>

theorem submit_without_rating:
  "selectedRating c = 0 \<Longrightarrow>
     submit_click B c = (c, [Alert ''Please select a star rating before submitting.'']) \<and>
     (\<forall>req. Send req \<notin> set (snd (submit_click B c)))"
  by (simp add: submit_click_def)

theorem submit_without_rating_witness:
  "selectedRating (newCard sampleBuiltins (processOne sampleBuiltins None 0 officeA)) = 0 \<and>
   submit_click sampleBuiltins (newCard sampleBuiltins (processOne sampleBuiltins None 0 officeA))
     = (newCard sampleBuiltins (processOne sampleBuiltins None 0 officeA),
        [Alert ''Please select a star rating before submitting.''])"
proof -
  have h: "selectedRating (newCard sampleBuiltins (processOne sampleBuiltins None 0 officeA)) = 0"
    by (simp add: newCard_def)
  show ?thesis
    using h submit_without_rating [OF h, of sampleBuiltins] by blast
qed

lemma submit_with_rating:
  "selectedRating c \<noteq> 0 \<Longrightarrow>
     \<exists>body. snd (submit_click B c) = [Send (Post API_REVIEW_URL (Some body))]"
  by (simp add: submit_click_def Let_def)

subsection \<open>Geocoding\<close>

lemmas eval_geocode =
  geocodeAddress_def geocodeAddress_try_def sampleBuiltins_def birmingham_def
  parseDecimal_def digitsValue_def Let_def

text \<open>
  C10. Whatever the address and whatever the request does, \<^verbatim>\<open>geocodeAddress\<close> settles
  to a value, never to a rejection: to \<^verbatim>\<open>null\<close> or to an object with a number
  \<open>lat\<close>, a number \<open>lon\<close> and the display name. A failed request gives \<^verbatim>\<open>null\<close>. So
  a search whose geocoding request fails ends on the path of an address that was not
  found: it shows that message, re-enables the controls, and sends no query.
\<close>

theorem geocodeAddress_total:
  "(\<exists>r. geocodeAddress B addr response = Inr r) \<and>
   geocodeAddress B addr Rejects = Inr None \<and>
   (handleSearch_enter B addressValue radiusValue st = (st1, Some (addr, radius)) \<longrightarrow>
      handleSearch B addressValue radiusValue Rejects queryResponse st =
        showLoading False
          (showError ''Could not find the specified address. Please try a different address.'' st1) \<and>
      requests (handleSearch B addressValue radiusValue Rejects queryResponse st) = requests st1)"
  by (auto simp: geocodeAddress_def geocodeAddress_try_def handleSearch_def handleSearch_geocoded_def
      showLoading_def showError_def Let_def
      split: sum.splits option.splits outcome.splits list.splits)

lemmas eval_search =
  handleSearch_def handleSearch_enter_def handleSearch_geocoded_def handleSearch_queried_def
  showLoading_def showError_def js_trim_def geocodeAddress_url_def

theorem geocodeAddress_total_witness:
  "snd (handleSearch_enter sampleBuiltins ''Birmingham, AL'' ''10'' initialState)
     = Some (''Birmingham, AL'', Fin 10) \<and>
   geocodeAddress sampleBuiltins ''Birmingham, AL'' Rejects = Inr None \<and>
   message (handleSearch sampleBuiltins ''Birmingham, AL'' ''10'' Rejects Rejects initialState)
     = Some (ErrorMessage,
         ''Could not find the specified address. Please try a different address.'') \<and>
   requests (handleSearch sampleBuiltins ''Birmingham, AL'' ''10'' Rejects Rejects initialState)
     = requests (fst (handleSearch_enter sampleBuiltins ''Birmingham, AL'' ''10'' initialState))"
proof -
  have s: "snd (handleSearch_enter sampleBuiltins ''Birmingham, AL'' ''10'' initialState)
     = Some (''Birmingham, AL'', Fin 10)"
    by (simp add: eval_search eval_geocode initialState_def)
  then have h: "handleSearch_enter sampleBuiltins ''Birmingham, AL'' ''10'' initialState =
      (fst (handleSearch_enter sampleBuiltins ''Birmingham, AL'' ''10'' initialState),
       Some (''Birmingham, AL'', Fin 10))"
    by (simp add: prod_eq_iff)
  note t = geocodeAddress_total [of sampleBuiltins "''Birmingham, AL''" Rejects
      "''Birmingham, AL''" "''10''" initialState
      "fst (handleSearch_enter sampleBuiltins ''Birmingham, AL'' ''10'' initialState)"
      "Fin 10" Rejects]
  from t h have a: "geocodeAddress sampleBuiltins ''Birmingham, AL'' Rejects = Inr None"
    and b: "handleSearch sampleBuiltins ''Birmingham, AL'' ''10'' Rejects Rejects initialState =
        showLoading False
          (showError ''Could not find the specified address. Please try a different address.''
            (fst (handleSearch_enter sampleBuiltins ''Birmingham, AL'' ''10'' initialState)))"
    and c: "requests (handleSearch sampleBuiltins ''Birmingham, AL'' ''10'' Rejects Rejects initialState)
     = requests (fst (handleSearch_enter sampleBuiltins ''Birmingham, AL'' ''10'' initialState))"
    by blast+
  have "message (handleSearch sampleBuiltins ''Birmingham, AL'' ''10'' Rejects Rejects initialState)
     = Some (ErrorMessage,
         ''Could not find the specified address. Please try a different address.'')"
    unfolding b by (simp add: showLoading_def showError_def)
  then show ?thesis using s a c by blast
qed

subsection \<open>Searching while a search or load is in flight\<close>







subsection \<open>The map and the globals that point into it\<close>

text \<open>An operation that leaves the map and the globals that point into it alone.\<close>

lemma consistent_frame:
  "layers st' = layers st \<Longrightarrow> nextId st' = nextId st \<Longrightarrow> markers st' = markers st \<Longrightarrow>
   searchCircle st' = searchCircle st \<Longrightarrow> searchLocationMarker st' = searchLocationMarker st \<Longrightarrow>
   consistent st' = consistent st"
  by (simp add: consistent_def markerLayers_def circleLayers_def searchMarkerLayers_def)

lemma consistent_showLoading [simp]: "consistent (showLoading b st) = consistent st"
  by (rule consistent_frame) (simp_all add: showLoading_def)

lemma consistent_showError [simp]: "consistent (showError m st) = consistent st"
  by (rule consistent_frame) (simp_all add: showError_def)

lemma consistent_updateSidebar [simp]: "consistent (updateSidebar B rs r st) = consistent st"
  by (rule consistent_frame) (simp_all add: updateSidebar_def Let_def)

lemma consistent_requests [simp]: "consistent (st\<lparr>requests := r\<rparr>) = consistent st"
  by (rule consistent_frame) simp_all

lemma consistent_lastSearchLocation [simp]:
  "consistent (st\<lparr>lastSearchLocation := l\<rparr>) = consistent st"
  by (rule consistent_frame) simp_all





























































subsection \<open>A search on concrete inputs\<close>












end
